theory Spec2Isabelle
  imports Main
begin

section \<open>The secrets command line (src/cli/secrets-cli.ts)\<close>

text \<open>
  The commands of \<^verbatim>\<open>registerSecretsCli\<close> are modelled as functions from their
  arguments, their options, the environment and the broker's state to the list of
  effects they perform, in order, and the broker's state afterwards.

  A JavaScript string is a \<open>string\<close>; characters beyond ASCII stand as their UTF-8 bytes.
  A number is an \<open>int\<close>: the source's numbers are IEEE doubles, which agree with the
  integers below \<open>2 ^ 53\<close> in absolute value; where a number is read from text, in
  parseInt, the rounding to a double and the infinities are modelled.
  A value that may be \<^verbatim>\<open>undefined\<close> is an \<open>option\<close>. A thrown \<^verbatim>\<open>Error\<close> is
  \<open>Inl\<close> of its message.
\<close>

subsection \<open>Data\<close>

text \<open>\<^verbatim>\<open>SecretTier\<close> is imported from the broker (\<^verbatim>\<open>../secrets/index.js\<close>); parseTier
  shows its three members, the strings \<^verbatim>\<open>open\<close>, \<^verbatim>\<open>controlled\<close> and \<^verbatim>\<open>restricted\<close>.\<close>

datatype SecretTier = Open | Controlled | Restricted

fun tierString :: "SecretTier \<Rightarrow> string" where
  "tierString Open = ''open''"
| "tierString Controlled = ''controlled''"
| "tierString Restricted = ''restricted''"

text \<open>\<^verbatim>\<open>SecretsOpts\<close>: every field is optional.\<close>

record SecretsOpts =
  opt_tier :: "string option"
  opt_description :: "string option"
  opt_value :: "string option"
  opt_ttl :: "string option"
  opt_confirm :: "bool option"
  opt_json :: "bool option"

text \<open>The result of \<^verbatim>\<open>parseInt\<close>: \<^verbatim>\<open>NaN\<close>, a finite number (an integer here), or an
  infinity.\<close>

datatype jsnum = NaN | Num int | PosInfinity | NegInfinity

text \<open>The values handed to \<^verbatim>\<open>JSON.stringify\<close>.\<close>

datatype json =
    JString string
  | JNumber int
  | JBool bool
  | JArray "json list"
  | JObject "(string \<times> json) list"

text \<open>The calls the command line makes to the broker.\<close>

datatype broker_call =
    ListSecrets
  | GetSecret string
  | SetSecret string string SecretTier "string option"
  | GrantSecret string string "jsnum option"
  | RevokeSecret string
  | DeleteSecret string

text \<open>What a command does, in order: \<^verbatim>\<open>defaultRuntime.log\<close>, \<^verbatim>\<open>defaultRuntime.error\<close>,
  \<^verbatim>\<open>defaultRuntime.exit\<close>, and the calls to the broker.\<close>

datatype effect =
    Log string
  | Error string
  | Exit nat
  | Call broker_call

subsection \<open>JavaScript truthiness\<close>

text \<open>\<^verbatim>\<open>!s\<close> for \<^verbatim>\<open>s: string | undefined\<close> (or \<^verbatim>\<open>null\<close>): true of \<^verbatim>\<open>undefined\<close> and of
  the empty string.\<close>

fun falsy_string :: "string option \<Rightarrow> bool" where
  "falsy_string None = True"
| "falsy_string (Some s) = (s = [])"

text \<open>\<^verbatim>\<open>!b\<close> for \<^verbatim>\<open>b: boolean | undefined\<close>.\<close>

fun falsy_bool :: "bool option \<Rightarrow> bool" where
  "falsy_bool None = True"
| "falsy_bool (Some b) = (\<not> b)"

subsection \<open>parseTier\<close>

text \<open>\<^verbatim>\<open>String.prototype.toLowerCase\<close> on the ASCII letters. A code point beyond ASCII is
  left as it is. In JavaScript the only code points beyond \<open>A\<close> to \<open>Z\<close> whose lower case
  holds an ASCII letter are U+212A (to \<open>k\<close>) and U+0130 (to \<open>i\<close> and U+0307), so a string
  lower-cases to one of the three tier names there exactly when it does here.\<close>

definition toLowerChar :: "char \<Rightarrow> char" where
  "toLowerChar c =
     (let n = (of_char c :: nat) in if 65 \<le> n \<and> n \<le> 90 then char_of (n + 32) else c)"

definition toLowerCase :: "string \<Rightarrow> string" where
  "toLowerCase s = map toLowerChar s"

definition parseTier :: "string option \<Rightarrow> string + SecretTier" where
  "parseTier tier =
     (if falsy_string tier then Inr Controlled
      else let normalized = toLowerCase (the tier) in
        if normalized = ''open'' then Inr Open
        else if normalized = ''controlled'' then Inr Controlled
        else if normalized = ''restricted'' then Inr Restricted
        else Inl (''Invalid tier: '' @ the tier @ ''. Must be open, controlled, or restricted.''))"

subsection \<open>The environment\<close>

text \<open>White space as \<^verbatim>\<open>String.prototype.trim\<close> and \<^verbatim>\<open>parseInt\<close> skip it (WhiteSpace and
  LineTerminator of ECMAScript), by the UTF-8 bytes of its code points. One byte: tab,
  line feed, vertical tab, form feed, carriage return, space. Two bytes: U+00A0. Three
  bytes: U+1680, U+2000 to U+200A, U+2028, U+2029, U+202F, U+205F, U+3000 and U+FEFF.\<close>

definition isWhiteSpace1 :: "char \<Rightarrow> bool" where
  "isWhiteSpace1 a = (a \<in> set [CHR 0x09, CHR 0x0A, CHR 0x0B, CHR 0x0C, CHR 0x0D, CHR 0x20])"

definition isWhiteSpace2 :: "char \<Rightarrow> char \<Rightarrow> bool" where
  "isWhiteSpace2 a b = (a = CHR 0xC2 \<and> b = CHR 0xA0)"

definition isWhiteSpace3 :: "char \<Rightarrow> char \<Rightarrow> char \<Rightarrow> bool" where
  "isWhiteSpace3 a b c =
     ((a = CHR 0xE1 \<and> b = CHR 0x9A \<and> c = CHR 0x80)
      \<or> (a = CHR 0xE2 \<and> b = CHR 0x80 \<and>
          ((0x80 :: nat) \<le> of_char c \<and> of_char c \<le> (0x8A :: nat)
           \<or> c \<in> set [CHR 0xA8, CHR 0xA9, CHR 0xAF]))
      \<or> (a = CHR 0xE2 \<and> b = CHR 0x81 \<and> c = CHR 0x9F)
      \<or> (a = CHR 0xE3 \<and> b = CHR 0x80 \<and> c = CHR 0x80)
      \<or> (a = CHR 0xEF \<and> b = CHR 0xBB \<and> c = CHR 0xBF))"

text \<open>\<^verbatim>\<open>trimStart\<close>: the white space at the head is dropped, one code point after the
  other.\<close>

fun trimStart :: "string \<Rightarrow> string" where
  "trimStart (a # b # c # s) =
     (if isWhiteSpace1 a then trimStart (b # c # s)
      else if isWhiteSpace2 a b then trimStart (c # s)
      else if isWhiteSpace3 a b c then trimStart s
      else a # b # c # s)"
| "trimStart [a, b] =
     (if isWhiteSpace1 a then trimStart [b]
      else if isWhiteSpace2 a b then []
      else [a, b])"
| "trimStart [a] = (if isWhiteSpace1 a then [] else [a])"
| "trimStart [] = []"

text \<open>The same from the end, on the reversed bytes: the last byte comes first.\<close>

fun trimReversed :: "string \<Rightarrow> string" where
  "trimReversed (c # b # a # s) =
     (if isWhiteSpace1 c then trimReversed (b # a # s)
      else if isWhiteSpace2 b c then trimReversed (a # s)
      else if isWhiteSpace3 a b c then trimReversed s
      else c # b # a # s)"
| "trimReversed [c, b] =
     (if isWhiteSpace1 c then trimReversed [b]
      else if isWhiteSpace2 b c then []
      else [c, b])"
| "trimReversed [c] = (if isWhiteSpace1 c then [] else [c])"
| "trimReversed [] = []"

definition trimEnd :: "string \<Rightarrow> string" where
  "trimEnd s = rev (trimReversed (rev s))"

definition trim :: "string \<Rightarrow> string" where
  "trim s = trimEnd (trimStart s)"

text \<open>The standard input as readStdin listens to it: chunks and then \<^verbatim>\<open>end\<close>, or an
  \<^verbatim>\<open>error\<close> event, or a stream that never ends, on which the promise never settles.\<close>

datatype stdin_stream =
    StdinEnd "string list"
  | StdinError string
  | StdinOpen

text \<open>readStdin: \<open>None\<close> when the promise never settles, \<open>Inl\<close> when it rejects.\<close>

fun readStdin :: "stdin_stream \<Rightarrow> (string + string) option" where
  "readStdin (StdinEnd chunks) = Some (Inr (trim (concat chunks)))"
| "readStdin (StdinError message) = Some (Inl message)"
| "readStdin StdinOpen = None"

text \<open>The argument of \<^verbatim>\<open>renderTable\<close> (\<^verbatim>\<open>../terminal/table.js\<close>).\<close>

record TableColumn =
  col_key :: string
  col_header :: string
  col_minWidth :: int
  col_flex :: "bool option"

record Table =
  tab_width :: int
  tab_columns :: "TableColumn list"
  tab_rows :: "(string \<times> string) list list"

text \<open>What the commands take from outside this file: the colours of \<^verbatim>\<open>theme\<close>
  (\<^verbatim>\<open>../terminal/theme.js\<close>), \<^verbatim>\<open>renderTable\<close>, \<^verbatim>\<open>JSON.stringify(_, null, 2)\<close>,
  \<^verbatim>\<open>Date.now()\<close>, \<^verbatim>\<open>new Date(_).toLocaleString()\<close>, \<^verbatim>\<open>process.stdout.columns\<close>,
  \<^verbatim>\<open>process.stdin.isTTY\<close> and the standard input.\<close>

record env =
  theme_muted :: "string \<Rightarrow> string"
  theme_error :: "string \<Rightarrow> string"
  theme_success :: "string \<Rightarrow> string"
  theme_warn :: "string \<Rightarrow> string"
  theme_command :: "string \<Rightarrow> string"
  renderTable :: "Table \<Rightarrow> string"
  JSON_stringify :: "json \<Rightarrow> string"
  Date_now :: int
  Date_toLocaleString :: "int \<Rightarrow> string"
  stdout_columns :: "int option"
  stdin_isTTY :: bool
  stdin :: stdin_stream

text \<open>The literals beyond ASCII, in UTF-8: U+2014, U+2713 and U+2717; and the apostrophe.\<close>

definition em_dash :: string where
  "em_dash = [CHR 0xE2, CHR 0x80, CHR 0x94]"

definition check_mark :: string where
  "check_mark = [CHR 0xE2, CHR 0x9C, CHR 0x93]"

definition ballot_x :: string where
  "ballot_x = [CHR 0xE2, CHR 0x9C, CHR 0x97]"

definition apostrophe :: string where
  "apostrophe = [CHR 0x27]"

subsection \<open>Numbers in template strings\<close>

text \<open>The decimal text of a number in a template string, for the integers.\<close>

definition digitChar :: "nat \<Rightarrow> char" where
  "digitChar d = char_of (d + 48)"

fun decimalDigits :: "nat \<Rightarrow> string \<Rightarrow> string" where
  "decimalDigits n acc =
     (if n div 10 = 0 then digitChar n # acc
      else decimalDigits (n div 10) (digitChar (n mod 10) # acc))"

definition numberToString :: "int \<Rightarrow> string" where
  "numberToString i =
     (if 0 \<le> i then decimalDigits (nat i) [] else CHR ''-'' # decimalDigits (nat \<bar>i\<bar>) [])"

text \<open>The remainder operator \<^verbatim>\<open>%\<close>: the result has the sign of the dividend.\<close>

definition js_rem :: "int \<Rightarrow> int \<Rightarrow> int" where
  "js_rem a b = sgn a * (\<bar>a\<bar> mod \<bar>b\<bar>)"

subsection \<open>formatGrantStatus\<close>

text \<open>\<^verbatim>\<open>!expiresAt\<close> for \<^verbatim>\<open>expiresAt?: number\<close>: true of \<^verbatim>\<open>undefined\<close> and of 0.\<close>

fun falsy_number :: "int option \<Rightarrow> bool" where
  "falsy_number None = True"
| "falsy_number (Some n) = (n = 0)"

definition formatGrantStatus :: "env \<Rightarrow> bool \<Rightarrow> int option \<Rightarrow> int option \<Rightarrow> string" where
  "formatGrantStatus e valid expiresAt remainingMinutes =
     (if \<not> valid \<or> falsy_number expiresAt then theme_muted e em_dash
      else if the expiresAt \<le> Date_now e then theme_error e ''expired''
      else case remainingMinutes of
        Some rm \<Rightarrow>
          (let h = rm div 60; m = js_rem rm 60 in
           theme_success e
             (if h > 0 then numberToString h @ ''h '' @ numberToString m @ ''m''
              else numberToString m @ ''m''))
      | None \<Rightarrow> theme_success e ''valid'')"

subsection \<open>secrets list\<close>

text \<open>The elements of the sequence \<^verbatim>\<open>listSecrets\<close> returns. Their type is declared in the
  broker; the fields are those the specification gives
  (\<^verbatim>\<open>{name, tier, grant:{valid, expiresAt?, remainingMinutes?}}\<close>), which are also all
  the fields the command reads.\<close>

record GrantStatus =
  g_valid :: bool
  g_expiresAt :: "int option"
  g_remainingMinutes :: "int option"

record SecretListEntry =
  s_name :: string
  s_tier :: SecretTier
  s_grant :: GrantStatus

text \<open>The value \<^verbatim>\<open>JSON.stringify\<close> sees: a property that is \<^verbatim>\<open>undefined\<close> is left out.\<close>

definition json_of_grant :: "GrantStatus \<Rightarrow> json" where
  "json_of_grant g =
     JObject ([(''valid'', JBool (g_valid g))]
       @ (case g_expiresAt g of Some x \<Rightarrow> [(''expiresAt'', JNumber x)] | None \<Rightarrow> [])
       @ (case g_remainingMinutes g of Some x \<Rightarrow> [(''remainingMinutes'', JNumber x)] | None \<Rightarrow> []))"

definition json_of_entry :: "SecretListEntry \<Rightarrow> json" where
  "json_of_entry s =
     JObject [(''name'', JString (s_name s)), (''tier'', JString (tierString (s_tier s))),
              (''grant'', json_of_grant (s_grant s))]"

definition list_columns :: "TableColumn list" where
  "list_columns =
     [\<lparr>col_key = ''Name'', col_header = ''Name'', col_minWidth = 20, col_flex = Some True\<rparr>,
      \<lparr>col_key = ''Tier'', col_header = ''Tier'', col_minWidth = 12, col_flex = None\<rparr>,
      \<lparr>col_key = ''Grant'', col_header = ''Grant Status'', col_minWidth = 15, col_flex = None\<rparr>,
      \<lparr>col_key = ''Expires'', col_header = ''Expires'', col_minWidth = 12, col_flex = None\<rparr>]"

definition list_row :: "env \<Rightarrow> SecretListEntry \<Rightarrow> (string \<times> string) list" where
  "list_row e s =
     [(''Name'', s_name s),
      (''Tier'', if s_tier s = Open then theme_success e (tierString (s_tier s))
                 else if s_tier s = Restricted then theme_error e (tierString (s_tier s))
                 else theme_warn e (tierString (s_tier s))),
      (''Grant'', if s_tier s = Open then theme_muted e ''always''
                  else if g_valid (s_grant s) then theme_success e (check_mark @ '' valid'')
                  else theme_error e (ballot_x @ '' needs grant'')),
      (''Expires'', if s_tier s = Open then theme_muted e em_dash
                    else formatGrantStatus e (g_valid (s_grant s)) (g_expiresAt (s_grant s))
                           (g_remainingMinutes (s_grant s)))]"

definition list_action ::
  "('b \<Rightarrow> (string + SecretListEntry list) \<times> 'b) \<Rightarrow> env \<Rightarrow> SecretsOpts \<Rightarrow> 'b \<Rightarrow> effect list \<times> 'b" where
  "list_action listSecrets e opts b =
     (case listSecrets b of
        (Inr secretsList, b') \<Rightarrow>
          if \<not> falsy_bool (opt_json opts) then
            ([Call ListSecrets, Log (JSON_stringify e (JArray (map json_of_entry secretsList)))], b')
          else if secretsList = [] then
            ([Call ListSecrets, Log (theme_muted e ''No secrets registered.'')], b')
          else
            (let tableWidth = max 60 ((case stdout_columns e of Some c \<Rightarrow> c | None \<Rightarrow> 120) - 1) in
             ([Call ListSecrets,
               Log (trimEnd (renderTable e
                 \<lparr>tab_width = tableWidth, tab_columns = list_columns,
                  tab_rows = map (list_row e) secretsList\<rparr>))], b'))
      | (Inl message, b') \<Rightarrow>
          ([Call ListSecrets, Error (''Failed to list secrets: '' @ message), Exit 1], b'))"

subsection \<open>secrets get\<close>

text \<open>\<^verbatim>\<open>getSecret\<close> is the broker's: it returns a string or an absent value, or throws, and
  may change the broker's state (its audit trail).\<close>

definition get_action ::
  "(string \<Rightarrow> 'b \<Rightarrow> (string + string option) \<times> 'b) \<Rightarrow> env \<Rightarrow>
   string \<Rightarrow> SecretsOpts \<Rightarrow> 'b \<Rightarrow> effect list \<times> 'b" where
  "get_action getSecret e name opts b =
     (case getSecret name b of
        (Inr v, b') \<Rightarrow>
          if falsy_string v then
            ([Call (GetSecret name),
              Error (''Secret '' @ apostrophe @ name @ apostrophe @ '' not found or access denied''),
              Exit 2], b')
          else
            ([Call (GetSecret name),
              Log (if \<not> falsy_bool (opt_json opts)
                   then JSON_stringify e (JObject [(''name'', JString name), (''value'', JString (the v))])
                   else the v)], b')
      | (Inl message, b') \<Rightarrow>
          ([Call (GetSecret name), Error (''Failed to get secret: '' @ message), Exit 1], b'))"

subsection \<open>secrets set\<close>

text \<open>The \<^verbatim>\<open>value\<close> of the set command: the option when it is a non-empty string,
  else the standard input when it is not a terminal, else the empty string.\<close>

definition set_value :: "env \<Rightarrow> SecretsOpts \<Rightarrow> (string + string) option" where
  "set_value e opts =
     (if \<not> falsy_string (opt_value opts) then Some (Inr (the (opt_value opts)))
      else if \<not> stdin_isTTY e then readStdin (stdin e)
      else Some (Inr []))"

text \<open>The command: \<open>None\<close> when it waits for a standard input that never ends.\<close>

definition set_action ::
  "(string \<Rightarrow> string \<Rightarrow> SecretTier \<Rightarrow> string option \<Rightarrow> 'b \<Rightarrow> (string + unit) \<times> 'b) \<Rightarrow> env \<Rightarrow>
   string \<Rightarrow> SecretsOpts \<Rightarrow> 'b \<Rightarrow> (effect list \<times> 'b) option" where
  "set_action setSecret e name opts b =
     (case parseTier (opt_tier opts) of
        Inl message \<Rightarrow> Some ([Error (''Failed to set secret: '' @ message), Exit 1], b)
      | Inr tier \<Rightarrow>
          (case set_value e opts of
             None \<Rightarrow> None
           | Some (Inl message) \<Rightarrow> Some ([Error (''Failed to set secret: '' @ message), Exit 1], b)
           | Some (Inr v) \<Rightarrow>
               if v = [] then
                 Some ([Error ''No value provided. Use --value or pipe to stdin.'', Exit 1], b)
               else
                 (case setSecret name v tier (opt_description opts) b of
                    (Inr _, b') \<Rightarrow>
                      Some ([Call (SetSecret name v tier (opt_description opts)),
                             Log (theme_success e check_mark @ '' Secret '' @ apostrophe
                                  @ theme_command e name @ apostrophe
                                  @ '' stored (tier: '' @ tierString tier @ '')'')], b')
                  | (Inl message, b') \<Rightarrow>
                      Some ([Call (SetSecret name v tier (opt_description opts)),
                             Error (''Failed to set secret: '' @ message), Exit 1], b'))))"

subsection \<open>secrets grant\<close>

definition isDigit :: "char \<Rightarrow> bool" where
  "isDigit c = (48 \<le> (of_char c :: nat) \<and> (of_char c :: nat) \<le> 57)"

definition digitValue :: "char \<Rightarrow> int" where
  "digitValue c = int (of_char c) - 48"

text \<open>The number value of an integer that is not negative: itself below \<open>2 ^ 53\<close>, else
  rounded to 53 significant bits, to the nearest and to the even on a tie, and infinite
  (\<open>None\<close>) from \<open>2 ^ 1024\<close> on.\<close>

function bitLength :: "int \<Rightarrow> nat" where
  "bitLength n = (if n \<le> 0 then 0 else Suc (bitLength (n div 2)))"
  by pat_completeness auto
termination
  by (relation "measure nat") auto

definition roundToDouble :: "int \<Rightarrow> int option" where
  "roundToDouble n =
     (if n < 2 ^ 53 then Some n
      else let e = bitLength n - 53;
               q = n div 2 ^ e;
               r = n mod 2 ^ e;
               m = (if 2 * r > 2 ^ e \<or> (2 * r = 2 ^ e \<and> odd q) then (q + 1) * 2 ^ e else q * 2 ^ e)
           in if m \<ge> 2 ^ 1024 then None else Some m)"

text \<open>\<^verbatim>\<open>parseInt(s, 10)\<close>: leading white space is skipped, then a sign, then the longest
  run of decimal digits is read and whatever follows is ignored; \<^verbatim>\<open>NaN\<close> when there is
  no digit. The result is the number value of the integer read (ECMAScript lets an
  implementation take the digits after the twentieth for zeros; the rounding here is
  that of the exact integer).\<close>

definition parseInt :: "string \<Rightarrow> jsnum" where
  "parseInt s =
     (let t = trimStart s;
          negative = (t \<noteq> [] \<and> hd t = CHR ''-'');
          u = (if t \<noteq> [] \<and> (hd t = CHR ''+'' \<or> hd t = CHR ''-'') then tl t else t);
          z = takeWhile isDigit u
      in if z = [] then NaN
         else let mathInt = foldl (\<lambda>a c. 10 * a + digitValue c) 0 z
              in case roundToDouble mathInt of
                   None \<Rightarrow> (if negative then NegInfinity else PosInfinity)
                 | Some m \<Rightarrow> Num (if negative then - m else m))"

fun isNaN :: "jsnum \<Rightarrow> bool" where
  "isNaN NaN = True"
| "isNaN _ = False"

text \<open>\<^verbatim>\<open>x <= 0\<close>: false of \<^verbatim>\<open>NaN\<close>.\<close>

fun le_zero :: "jsnum \<Rightarrow> bool" where
  "le_zero NaN = False"
| "le_zero (Num n) = (n \<le> 0)"
| "le_zero PosInfinity = False"
| "le_zero NegInfinity = True"

definition grant_action ::
  "(string \<Rightarrow> string \<Rightarrow> jsnum option \<Rightarrow> 'b \<Rightarrow> (string + int) \<times> 'b) \<Rightarrow> env \<Rightarrow>
   string \<Rightarrow> string \<Rightarrow> SecretsOpts \<Rightarrow> 'b \<Rightarrow> effect list \<times> 'b" where
  "grant_action grantSecret e name code opts b =
     (let ttlMinutes = (if \<not> falsy_string (opt_ttl opts) then Some (parseInt (the (opt_ttl opts)))
                        else None)
      in if ttlMinutes \<noteq> None \<and> (isNaN (the ttlMinutes) \<or> le_zero (the ttlMinutes)) then
           ([Error ''TTL must be a positive number'', Exit 1], b)
         else
           (case grantSecret name code ttlMinutes b of
              (Inr expiresAt, b') \<Rightarrow>
                ([Call (GrantSecret name code ttlMinutes),
                  Log (if \<not> falsy_bool (opt_json opts)
                       then JSON_stringify e
                              (JObject [(''name'', JString name), (''expiresAt'', JNumber expiresAt)])
                       else theme_success e check_mark @ '' Grant created for '' @ apostrophe
                            @ theme_command e name @ apostrophe @ '' until ''
                            @ Date_toLocaleString e expiresAt)], b')
            | (Inl message, b') \<Rightarrow>
                ([Call (GrantSecret name code ttlMinutes),
                  Error (''Failed to grant access: '' @ message), Exit 1], b')))"

subsection \<open>secrets revoke\<close>

definition revoke_action ::
  "(string \<Rightarrow> 'b \<Rightarrow> (string + unit) \<times> 'b) \<Rightarrow> env \<Rightarrow> string \<Rightarrow> 'b \<Rightarrow> effect list \<times> 'b" where
  "revoke_action revokeSecret e name b =
     (case revokeSecret name b of
        (Inr _, b') \<Rightarrow>
          ([Call (RevokeSecret name),
            Log (theme_success e check_mark @ '' Grant revoked for '' @ apostrophe
                 @ theme_command e name @ apostrophe)], b')
      | (Inl message, b') \<Rightarrow>
          ([Call (RevokeSecret name), Error (''Failed to revoke grant: '' @ message), Exit 1], b'))"

subsection \<open>secrets delete\<close>

definition delete_action ::
  "(string \<Rightarrow> 'b \<Rightarrow> (string + unit) \<times> 'b) \<Rightarrow> env \<Rightarrow> string \<Rightarrow> SecretsOpts \<Rightarrow> 'b \<Rightarrow>
   effect list \<times> 'b" where
  "delete_action deleteSecret e name opts b =
     (if falsy_bool (opt_confirm opts) then
        ([Error ''Deletion requires --confirm flag'', Exit 1], b)
      else case deleteSecret name b of
        (Inr _, b') \<Rightarrow>
          ([Call (DeleteSecret name),
            Log (theme_success e check_mark @ '' Secret '' @ apostrophe
                 @ theme_command e name @ apostrophe @ '' deleted'')], b')
      | (Inl message, b') \<Rightarrow>
          ([Call (DeleteSecret name), Error (''Failed to delete secret: '' @ message), Exit 1], b'))"

subsection \<open>Observing a run\<close>

fun calls :: "effect list \<Rightarrow> broker_call list" where
  "calls [] = []"
| "calls (Call c # xs) = c # calls xs"
| "calls (_ # xs) = calls xs"

fun exits :: "effect list \<Rightarrow> nat list" where
  "exits [] = []"
| "exits (Exit n # xs) = n # exits xs"
| "exits (_ # xs) = exits xs"

fun errors :: "effect list \<Rightarrow> string list" where
  "errors [] = []"
| "errors (Error m # xs) = m # errors xs"
| "errors (_ # xs) = errors xs"

fun logs :: "effect list \<Rightarrow> string list" where
  "logs [] = []"
| "logs (Log m # xs) = m # logs xs"
| "logs (_ # xs) = logs xs"

section \<open>The broker (\<^verbatim>\<open>../secrets/index.js\<close>), from the specification\<close>

text \<open>
  The broker's code is not part of the sources at hand. These definitions follow the
  specification of its data (section 3) and of its operations (sections 4 and 6).
  Time is in milliseconds, as the command line's \<^verbatim>\<open>new Date(expiresAt)\<close> reads it.
\<close>

text \<open>Modelled from the spec: the error taxonomy of section 7.\<close>

datatype broker_error =
    NotFound
  | InvalidTier
  | InvalidCode
  | ValidationError
  | LockTimeout
  | StorageError
  | CryptoError

text \<open>Modelled from the spec: the Secret record of the registry. The sealed value is of a
  type \<open>'c\<close> the Crypto Engine chooses.\<close>

record 'c Secret =
  secret_name :: string
  secret_tier :: SecretTier
  secret_description :: "string option"
  sealedValue :: 'c
  createdAt :: int
  updatedAt :: int

text \<open>Modelled from the spec: the Grant record.\<close>

record Grant =
  secretName :: string
  issuedAt :: int
  expiresAt :: int

text \<open>Modelled from the spec: the Audit Entry.\<close>

datatype audit_action = AuditSet | AuditGet | AuditGrant | AuditRevoke | AuditDelete | AuditDenied

record AuditEntry =
  audit_timestamp :: int
  audit_action :: audit_action
  audit_secretName :: string
  audit_success :: bool
  audit_reason :: "string option"

text \<open>Modelled from the spec: the Crypto Engine (sealing with a nonce, unsealing that may
  fail, TOTP verification of a code against the enrollment secret at a time) and the
  default TTL of a grant, a constant the specification leaves to the implementation.\<close>

record 'c engine =
  seal :: "nat \<Rightarrow> string \<Rightarrow> 'c"
  unseal :: "'c \<Rightarrow> string option"
  verify :: "string \<Rightarrow> string \<Rightarrow> int \<Rightarrow> bool"
  defaultTtlMinutes :: int

text \<open>Modelled from the spec: the persisted state. The registry is a sequence, in the order
  the secrets were first set; the grants are records that name their secret; the TOTP
  enrollment secret is sealed; the audit trail grows at its end; each seal takes the
  next nonce.\<close>

record 'c broker =
  registry :: "'c Secret list"
  grants :: "Grant list"
  enrollment :: "'c option"
  audit :: "AuditEntry list"
  nextNonce :: nat

definition empty_broker :: "'c broker" where
  "empty_broker = \<lparr>registry = [], grants = [], enrollment = None, audit = [], nextNonce = 0\<rparr>"

definition find_secret :: "string \<Rightarrow> 'c broker \<Rightarrow> 'c Secret option" where
  "find_secret n b = find (\<lambda>s. secret_name s = n) (registry b)"

definition find_grant :: "string \<Rightarrow> 'c broker \<Rightarrow> Grant option" where
  "find_grant n b = find (\<lambda>g. secretName g = n) (grants b)"

definition audit_entry :: "int \<Rightarrow> audit_action \<Rightarrow> string \<Rightarrow> bool \<Rightarrow> AuditEntry" where
  "audit_entry now a n ok =
     \<lparr>audit_timestamp = now, audit_action = a, audit_secretName = n, audit_success = ok,
      audit_reason = None\<rparr>"

text \<open>Modelled from the spec: \<^verbatim>\<open>isValid(secretName)\<close> of the Grant Manager, a pure read.
  A grant is valid while \<open>now < expiresAt\<close>; an expired grant is kept and still shows its
  expiry. The remaining minutes are the whole minutes until the expiry.\<close>

definition isValid :: "int \<Rightarrow> string \<Rightarrow> 'c broker \<Rightarrow> GrantStatus" where
  "isValid now n b =
     (case find_grant n b of
        None \<Rightarrow> \<lparr>g_valid = False, g_expiresAt = None, g_remainingMinutes = None\<rparr>
      | Some g \<Rightarrow>
          \<lparr>g_valid = (now < expiresAt g), g_expiresAt = Some (expiresAt g),
           g_remainingMinutes =
             (if now < expiresAt g then Some ((expiresAt g - now) div 60000) else None)\<rparr>)"

text \<open>Modelled from the spec: \<^verbatim>\<open>set(name, plaintextValue, tier, description?)\<close> seals the
  value, upserts the record, updates \<^verbatim>\<open>updatedAt\<close> and writes an audit entry; an
  existing secret is replaced without error.\<close>

definition spec_setSecret ::
  "'c engine \<Rightarrow> int \<Rightarrow> string \<Rightarrow> string \<Rightarrow> SecretTier \<Rightarrow> string option \<Rightarrow> 'c broker \<Rightarrow>
   (broker_error + unit) \<times> 'c broker" where
  "spec_setSecret E now n v t d b =
     (let c = seal E (nextNonce b) v;
          fresh = \<lparr>secret_name = n, secret_tier = t, secret_description = d, sealedValue = c,
                   createdAt = now, updatedAt = now\<rparr>;
          r = (case find_secret n b of
                 None \<Rightarrow> registry b @ [fresh]
               | Some _ \<Rightarrow>
                   map (\<lambda>s. if secret_name s = n
                            then s\<lparr>secret_tier := t, secret_description := d, sealedValue := c,
                                   updatedAt := now\<rparr>
                            else s) (registry b))
      in (Inr (),
          b\<lparr>registry := r, audit := audit b @ [audit_entry now AuditSet n True],
            nextNonce := Suc (nextNonce b)\<rparr>))"

text \<open>Modelled from the spec: \<^verbatim>\<open>get(name)\<close>. An \<^verbatim>\<open>open\<close> secret is unsealed and returned
  directly; a \<^verbatim>\<open>controlled\<close> or \<^verbatim>\<open>restricted\<close> one only while an unexpired grant
  exists, and else the result is the absent value of a missing secret, with a
  \<^verbatim>\<open>denied\<close> audit entry. The order is tier check, grant check, unseal, audit write.\<close>

definition spec_getSecret ::
  "'c engine \<Rightarrow> int \<Rightarrow> string \<Rightarrow> 'c broker \<Rightarrow> (broker_error + string option) \<times> 'c broker" where
  "spec_getSecret E now n b =
     (case find_secret n b of
        None \<Rightarrow> (Inr None, b)
      | Some s \<Rightarrow>
          if secret_tier s = Open \<or> g_valid (isValid now n b) then
            (case unseal E (sealedValue s) of
               None \<Rightarrow> (Inl CryptoError, b)
             | Some v \<Rightarrow> (Inr (Some v), b\<lparr>audit := audit b @ [audit_entry now AuditGet n True]\<rparr>))
          else
            (Inr None, b\<lparr>audit := audit b @ [audit_entry now AuditDenied n False]\<rparr>))"

text \<open>Modelled from the spec: \<^verbatim>\<open>list()\<close>, the name, the tier and the grant status of every
  secret, the status asked of the Grant Manager.\<close>

definition spec_listSecrets :: "int \<Rightarrow> 'c broker \<Rightarrow> SecretListEntry list" where
  "spec_listSecrets now b =
     map (\<lambda>s. \<lparr>s_name = secret_name s, s_tier = secret_tier s,
                s_grant = isValid now (secret_name s) b\<rparr>) (registry b)"

text \<open>Modelled from the spec: a failure reaches the caller as a typed failure with a
  message for a human; the message is taken to be the name of the failure.\<close>

fun error_text :: "broker_error \<Rightarrow> string" where
  "error_text NotFound = ''NotFound''"
| "error_text InvalidTier = ''InvalidTier''"
| "error_text InvalidCode = ''InvalidCode''"
| "error_text ValidationError = ''ValidationError''"
| "error_text LockTimeout = ''LockTimeout''"
| "error_text StorageError = ''StorageError''"
| "error_text CryptoError = ''CryptoError''"

text \<open>Modelled from the spec: \<^verbatim>\<open>getSecret(name)\<close> as the command line calls it, at a time.\<close>

definition broker_getSecret ::
  "'c engine \<Rightarrow> int \<Rightarrow> string \<Rightarrow> 'c broker \<Rightarrow> (string + string option) \<times> 'c broker" where
  "broker_getSecret E now n b =
     (case spec_getSecret E now n b of
        (Inl err, b') \<Rightarrow> (Inl (error_text err), b')
      | (Inr v, b') \<Rightarrow> (Inr v, b'))"

text \<open>Modelled from the spec: \<^verbatim>\<open>listSecrets()\<close> as the command line calls it; it
  does not fail and changes nothing.\<close>

definition broker_listSecrets ::
  "int \<Rightarrow> 'c broker \<Rightarrow> (string + SecretListEntry list) \<times> 'c broker" where
  "broker_listSecrets now b = (Inr (spec_listSecrets now b), b)"

text \<open>Modelled from the spec: \<^verbatim>\<open>delete(name)\<close> removes the record and any grant of the
  secret and writes an audit entry; it fails with \<^verbatim>\<open>NotFound\<close> on a missing secret.\<close>

definition spec_deleteSecret ::
  "int \<Rightarrow> string \<Rightarrow> 'c broker \<Rightarrow> (broker_error + unit) \<times> 'c broker" where
  "spec_deleteSecret now n b =
     (case find_secret n b of
        None \<Rightarrow> (Inl NotFound, b)
      | Some _ \<Rightarrow>
          (Inr (),
           b\<lparr>registry := filter (\<lambda>s. secret_name s \<noteq> n) (registry b),
             grants := filter (\<lambda>g. secretName g \<noteq> n) (grants b),
             audit := audit b @ [audit_entry now AuditDelete n True]\<rparr>))"

text \<open>Modelled from the spec: the TOTP check of a code against the broker-wide enrollment
  secret; no code verifies before an enrollment.\<close>

definition totp_ok :: "'c engine \<Rightarrow> int \<Rightarrow> string \<Rightarrow> 'c broker \<Rightarrow> bool" where
  "totp_ok E now code b =
     (case enrollment b of
        None \<Rightarrow> False
      | Some c \<Rightarrow> (case unseal E c of None \<Rightarrow> False | Some k \<Rightarrow> verify E code k now))"

text \<open>Modelled from the spec: \<^verbatim>\<open>issue(secretName, totpCode, ttlMinutes?)\<close>. It fails with
  \<^verbatim>\<open>NotFound\<close> on a missing secret, with \<^verbatim>\<open>InvalidCode\<close> when the code does not verify,
  with \<^verbatim>\<open>InvalidTier\<close> on an \<^verbatim>\<open>open\<close> secret. The new grant replaces the grant the
  secret has; it expires the TTL after now, the default TTL when none is given.\<close>

definition spec_grantSecret ::
  "'c engine \<Rightarrow> int \<Rightarrow> string \<Rightarrow> string \<Rightarrow> int option \<Rightarrow> 'c broker \<Rightarrow>
   (broker_error + int) \<times> 'c broker" where
  "spec_grantSecret E now n code ttlMinutes b =
     (case find_secret n b of
        None \<Rightarrow> (Inl NotFound, b)
      | Some s \<Rightarrow>
          if \<not> totp_ok E now code b then (Inl InvalidCode, b)
          else if secret_tier s = Open then (Inl InvalidTier, b)
          else
            (let ttl = (case ttlMinutes of None \<Rightarrow> defaultTtlMinutes E | Some m \<Rightarrow> m);
                 g = \<lparr>secretName = n, issuedAt = now, expiresAt = now + ttl * 60000\<rparr>
             in (Inr (expiresAt g),
                 b\<lparr>grants := filter (\<lambda>x. secretName x \<noteq> n) (grants b) @ [g],
                   audit := audit b @ [audit_entry now AuditGrant n True]\<rparr>)))"

text \<open>Modelled from the spec: \<^verbatim>\<open>revoke(secretName)\<close> deletes the grant unconditionally and
  writes an audit entry; it succeeds when there is no grant.\<close>

definition spec_revokeSecret ::
  "int \<Rightarrow> string \<Rightarrow> 'c broker \<Rightarrow> (broker_error + unit) \<times> 'c broker" where
  "spec_revokeSecret now n b =
     (Inr (),
      b\<lparr>grants := filter (\<lambda>g. secretName g \<noteq> n) (grants b),
        audit := audit b @ [audit_entry now AuditRevoke n True]\<rparr>)"

text \<open>Modelled from the spec: \<^verbatim>\<open>setupTotp\<close> stores a new shared secret, sealed, in place of
  the old one. The random secret is an argument; the provisioning URI is not modelled.\<close>

definition spec_setupTotp :: "'c engine \<Rightarrow> string \<Rightarrow> 'c broker \<Rightarrow> 'c broker" where
  "spec_setupTotp E k b =
     b\<lparr>enrollment := Some (seal E (nextNonce b) k), nextNonce := Suc (nextNonce b)\<rparr>"

text \<open>The operations that may change the state, and a run of them from a state.\<close>

datatype broker_op =
    OpSet int string string SecretTier "string option"
  | OpGet int string
  | OpDelete int string
  | OpGrant int string string "int option"
  | OpRevoke int string
  | OpSetupTotp string

fun apply_op :: "'c engine \<Rightarrow> 'c broker \<Rightarrow> broker_op \<Rightarrow> 'c broker" where
  "apply_op E b (OpSet now n v t d) = snd (spec_setSecret E now n v t d b)"
| "apply_op E b (OpGet now n) = snd (spec_getSecret E now n b)"
| "apply_op E b (OpDelete now n) = snd (spec_deleteSecret now n b)"
| "apply_op E b (OpGrant now n code ttl) = snd (spec_grantSecret E now n code ttl b)"
| "apply_op E b (OpRevoke now n) = snd (spec_revokeSecret now n b)"
| "apply_op E b (OpSetupTotp k) = spec_setupTotp E k b"

definition run :: "'c engine \<Rightarrow> broker_op list \<Rightarrow> 'c broker \<Rightarrow> 'c broker" where
  "run E ops b = foldl (apply_op E) b ops"

text \<open>Whether an operation sets or deletes the secret of a name.\<close>

fun writes_secret :: "string \<Rightarrow> broker_op \<Rightarrow> bool" where
  "writes_secret n (OpSet _ m _ _ _) = (m = n)"
| "writes_secret n (OpDelete _ m) = (m = n)"
| "writes_secret n _ = False"

text \<open>Two operations that are the same but for the value a set stores.\<close>

fun same_but_value :: "broker_op \<Rightarrow> broker_op \<Rightarrow> bool" where
  "same_but_value (OpSet now n v t d) (OpSet now' n' v' t' d') =
     (now = now' \<and> n = n' \<and> t = t' \<and> d = d')"
| "same_but_value p q = (p = q)"

text \<open>Two states of the broker that hold the same names with the same tiers, the same
  grants and the same enrollment, whatever the values they seal.\<close>

definition same_listing :: "'c broker \<Rightarrow> 'c broker \<Rightarrow> bool" where
  "same_listing b1 b2 =
     (list_all2 (\<lambda>s t. secret_name s = secret_name t \<and> secret_tier s = secret_tier t)
        (registry b1) (registry b2)
      \<and> grants b1 = grants b2 \<and> enrollment b1 = enrollment b2 \<and> nextNonce b1 = nextNonce b2)"

section \<open>Fixtures\<close>

text \<open>An environment without colours, whose table is its cells and whose JSON text is
  empty; broker functions that return a given result and leave the state alone; an
  engine that seals a value by pairing it with the nonce and verifies a code that equals
  the enrollment secret.\<close>

definition plain_table :: "Table \<Rightarrow> string" where
  "plain_table t = concat (map (\<lambda>r. concat (map (\<lambda>c. snd c @ '' '') r) @ [CHR 0x0A]) (tab_rows t))"

definition no_json :: "json \<Rightarrow> string" where
  "no_json j = []"

definition plain_env :: env where
  "plain_env =
     \<lparr>theme_muted = id, theme_error = id, theme_success = id, theme_warn = id,
      theme_command = id, renderTable = plain_table, JSON_stringify = no_json,
      Date_now = 0, Date_toLocaleString = numberToString, stdout_columns = None,
      stdin_isTTY = True, stdin = StdinEnd []\<rparr>"

definition no_opts :: SecretsOpts where
  "no_opts =
     \<lparr>opt_tier = None, opt_description = None, opt_value = None, opt_ttl = None,
      opt_confirm = None, opt_json = None\<rparr>"

definition answer1 :: "'r \<Rightarrow> string \<Rightarrow> unit \<Rightarrow> 'r \<times> unit" where
  "answer1 r n b = (r, b)"

definition answer3 :: "'r \<Rightarrow> string \<Rightarrow> string \<Rightarrow> jsnum option \<Rightarrow> unit \<Rightarrow> 'r \<times> unit" where
  "answer3 r n c t b = (r, b)"

definition answer4 ::
  "'r \<Rightarrow> string \<Rightarrow> string \<Rightarrow> SecretTier \<Rightarrow> string option \<Rightarrow> unit \<Rightarrow> 'r \<times> unit" where
  "answer4 r n v t d b = (r, b)"

definition pairing_engine :: "(nat \<times> string) engine" where
  "pairing_engine =
     \<lparr>seal = Pair, unseal = (\<lambda>c. Some (snd c)), verify = (\<lambda>code k now. code = k),
      defaultTtlMinutes = 60\<rparr>"

section \<open>Properties of the command line\<close>

subsection \<open>Auxiliary facts\<close>

lemma toLowerCase_OPEN: "toLowerCase ''OPEN'' = ''open''"
  by code_simp

lemma parseTier_cases:
  "parseTier t =
     (if falsy_string t then Inr Controlled
      else if toLowerCase (the t) = ''open'' then Inr Open
      else if toLowerCase (the t) = ''controlled'' then Inr Controlled
      else if toLowerCase (the t) = ''restricted'' then Inr Restricted
      else Inl (''Invalid tier: '' @ the t @ ''. Must be open, controlled, or restricted.''))"
  by (simp add: parseTier_def Let_def)

lemma parseTier_Inr_iff:
  "(\<exists>T. parseTier t = Inr T) \<longleftrightarrow>
     (falsy_string t \<or> toLowerCase (the t) \<in> set [''open'', ''controlled'', ''restricted''])"
  by (simp add: parseTier_cases)

lemma parseTier_tierString:
  "toLowerCase t = tierString T \<Longrightarrow> parseTier (Some t) = Inr T"
  by (cases T) (auto simp: parseTier_cases toLowerCase_def)

lemma set_action_invalid_tier:
  "parseTier (opt_tier opts) = Inl m \<Longrightarrow>
     set_action setS e name opts b = Some ([Error (''Failed to set secret: '' @ m), Exit 1], b)"
  by (simp add: set_action_def)

lemma set_action_valid:
  assumes "parseTier (opt_tier opts) = Inr T" "set_value e opts = Some (Inr v)" "v \<noteq> []"
  shows "\<exists>r. set_action setS e name opts b = Some r \<and>
             calls (fst r) = [SetSecret name v T (opt_description opts)]"
  using assms by (cases "setS name v T (opt_description opts) b")
    (auto simp: set_action_def split: sum.splits)

lemma parseInt_5abc: "parseInt ''5abc'' = Num 5"
  by code_simp

subsection \<open>secrets get\<close>

text \<open>
  C1. For every secret name, when getSecret returns an absent value, \<^verbatim>\<open>secrets get\<close> emits
  the same error message and the same exit code whatever the reason of the absence:
  a broker in which the secret does not exist (\<open>getS1\<close> at \<open>b1\<close>) and a broker in which
  it exists and access is denied (\<open>getS2\<close> at \<open>b2\<close>) give the same effects, the message
  for the name and exit code 2.
\<close>

theorem get_absent_indistinguishable:
  assumes "fst (getS1 name b1) = Inr None" and "fst (getS2 name b2) = Inr None"
  shows "fst (get_action getS1 e name opts b1) = fst (get_action getS2 e name opts b2)
       \<and> fst (get_action getS1 e name opts b1) =
           [Call (GetSecret name),
            Error (''Secret '' @ apostrophe @ name @ apostrophe @ '' not found or access denied''),
            Exit 2]"
  using assms by (cases "getS1 name b1"; cases "getS2 name b2") (simp add: get_action_def)

text \<open>The two reasons at work, on the broker as specified: a name that was never set, and
  a restricted secret without a grant.\<close>

theorem get_absent_indistinguishable_witness:
  "fst (get_action (broker_getSecret pairing_engine 100) plain_env ''db-pass'' no_opts
          (empty_broker :: (nat \<times> string) broker))
   = fst (get_action (broker_getSecret pairing_engine 100) plain_env ''db-pass'' no_opts
          (run pairing_engine [OpSet 0 ''db-pass'' ''s3cr3t'' Restricted None] empty_broker))
   \<and> fst (get_action (broker_getSecret pairing_engine 100) plain_env ''db-pass'' no_opts
          (empty_broker :: (nat \<times> string) broker))
   = [Call (GetSecret ''db-pass''),
      Error (''Secret '' @ apostrophe @ ''db-pass'' @ apostrophe @ '' not found or access denied''),
      Exit 2]"
proof -
  have missing: "fst (broker_getSecret pairing_engine 100 ''db-pass''
                  (empty_broker :: (nat \<times> string) broker)) = Inr None"
    by (simp add: broker_getSecret_def spec_getSecret_def find_secret_def empty_broker_def)
  have denied: "fst (broker_getSecret pairing_engine 100 ''db-pass''
                  (run pairing_engine [OpSet 0 ''db-pass'' ''s3cr3t'' Restricted None] empty_broker))
                = Inr None"
    by (simp add: broker_getSecret_def spec_getSecret_def find_secret_def empty_broker_def run_def
        spec_setSecret_def isValid_def find_grant_def Let_def)
  show ?thesis
    by (rule get_absent_indistinguishable[of "broker_getSecret pairing_engine 100" "''db-pass''"
          "empty_broker :: (nat \<times> string) broker" "broker_getSecret pairing_engine 100"
          "run pairing_engine [OpSet 0 ''db-pass'' ''s3cr3t'' Restricted None] empty_broker"
          plain_env no_opts, OF missing denied])
qed

text \<open>
  C9, as amended. For every invocation of \<^verbatim>\<open>secrets get\<close>: if getSecret returns a
  present value that is not empty, the command prints the value (or its JSON object) and
  does not exit with an error; if getSecret returns an absent value or the empty string,
  the command reports that the secret of that name was not found or access was denied
  and exits with code 2; if getSecret throws, the command reports the failure with its
  message and exits with code 1. The three outcomes are distinguished by these exit
  signals: none, 2 and 1.
\<close>

theorem get_action_outcomes:
  assumes "getS name b = (r, b')"
  shows "(\<forall>v. r = Inr (Some v) \<and> v \<noteq> [] \<longrightarrow>
            get_action getS e name opts b =
              ([Call (GetSecret name),
                Log (if falsy_bool (opt_json opts) then v
                     else JSON_stringify e (JObject [(''name'', JString name), (''value'', JString v)]))],
               b'))
       \<and> (r = Inr None \<or> r = Inr (Some []) \<longrightarrow>
            get_action getS e name opts b =
              ([Call (GetSecret name),
                Error (''Secret '' @ apostrophe @ name @ apostrophe @ '' not found or access denied''),
                Exit 2], b'))
       \<and> (\<forall>m. r = Inl m \<longrightarrow>
            get_action getS e name opts b =
              ([Call (GetSecret name), Error (''Failed to get secret: '' @ m), Exit 1], b'))
       \<and> exits (fst (get_action getS e name opts b)) =
            (case r of Inr v \<Rightarrow> if falsy_string v then [2] else [] | Inl m \<Rightarrow> [1])"
proof (intro conjI allI impI)
  fix v
  assume "r = Inr (Some v) \<and> v \<noteq> []"
  with assms show "get_action getS e name opts b =
      ([Call (GetSecret name),
        Log (if falsy_bool (opt_json opts) then v
             else JSON_stringify e (JObject [(''name'', JString name), (''value'', JString v)]))],
       b')"
    by (simp add: get_action_def)
next
  assume "r = Inr None \<or> r = Inr (Some [])"
  with assms show "get_action getS e name opts b =
      ([Call (GetSecret name),
        Error (''Secret '' @ apostrophe @ name @ apostrophe @ '' not found or access denied''),
        Exit 2], b')"
    by (auto simp: get_action_def)
next
  fix m
  assume "r = Inl m"
  with assms show "get_action getS e name opts b =
      ([Call (GetSecret name), Error (''Failed to get secret: '' @ m), Exit 1], b')"
    by (simp add: get_action_def)
next
  from assms show "exits (fst (get_action getS e name opts b)) =
      (case r of Inr v \<Rightarrow> if falsy_string v then [2] else [] | Inl m \<Rightarrow> [1])"
    by (cases r) (simp_all add: get_action_def)
qed

theorem get_action_outcomes_witness:
  "get_action (answer1 (Inr (Some ''s3cr3t''))) plain_env ''db-pass'' no_opts () =
     ([Call (GetSecret ''db-pass''), Log ''s3cr3t''], ())
   \<and> get_action (answer1 (Inr None)) plain_env ''db-pass'' no_opts () =
     ([Call (GetSecret ''db-pass''),
       Error (''Secret '' @ apostrophe @ ''db-pass'' @ apostrophe @ '' not found or access denied''),
       Exit 2], ())
   \<and> get_action (answer1 (Inr (Some []))) plain_env ''db-pass'' no_opts () =
     ([Call (GetSecret ''db-pass''),
       Error (''Secret '' @ apostrophe @ ''db-pass'' @ apostrophe @ '' not found or access denied''),
       Exit 2], ())
   \<and> get_action (answer1 (Inl ''locked'')) plain_env ''db-pass'' no_opts () =
     ([Call (GetSecret ''db-pass''), Error ''Failed to get secret: locked'', Exit 1], ())"
  using get_action_outcomes[of "answer1 (Inr (Some ''s3cr3t''))" "''db-pass''" "()"
      "Inr (Some ''s3cr3t'')" "()" plain_env no_opts]
    get_action_outcomes[of "answer1 (Inr None)" "''db-pass''" "()" "Inr None" "()" plain_env no_opts]
    get_action_outcomes[of "answer1 (Inr (Some []))" "''db-pass''" "()" "Inr (Some [])" "()"
      plain_env no_opts]
    get_action_outcomes[of "answer1 (Inl ''locked'')" "''db-pass''" "()" "Inl ''locked''" "()"
      plain_env no_opts]
  by (simp add: answer1_def no_opts_def)

text \<open>
  C9 as it is stated fails at the empty string: it is a present value, and the command
  answers it as it answers an absent one, with the error message and exit code 2.
\<close>

theorem get_empty_value_counterexample:
  "get_action (answer1 (Inr (Some []))) plain_env ''k'' no_opts () =
     ([Call (GetSecret ''k''),
       Error (''Secret '' @ apostrophe @ ''k'' @ apostrophe @ '' not found or access denied''),
       Exit 2], ())"
  by (simp add: get_action_def answer1_def)

subsection \<open>secrets delete\<close>

text \<open>
  C10. \<^verbatim>\<open>secrets delete\<close> never calls deleteSecret unless the confirm flag is present:
  without it the command reports an error, exits with code 1, calls nothing and leaves
  the state as it was; and a run that calls the broker had the flag set.
\<close>

theorem delete_requires_confirm:
  "(falsy_bool (opt_confirm opts) \<longrightarrow>
      delete_action delS e name opts b = ([Error ''Deletion requires --confirm flag'', Exit 1], b))
   \<and> (calls (fst (delete_action delS e name opts b)) \<noteq> [] \<longrightarrow> opt_confirm opts = Some True)"
  by (cases "opt_confirm opts")
     (auto simp: delete_action_def split: prod.splits sum.splits if_splits)

theorem delete_requires_confirm_witness:
  "delete_action (answer1 (Inr ())) plain_env ''db-pass'' no_opts () =
     ([Error ''Deletion requires --confirm flag'', Exit 1], ())
   \<and> calls (fst (delete_action (answer1 (Inr ())) plain_env ''db-pass''
                   (no_opts\<lparr>opt_confirm := Some True\<rparr>) ())) = [DeleteSecret ''db-pass'']"
  using delete_requires_confirm[of no_opts "answer1 (Inr ())" plain_env "''db-pass''" "()"]
    delete_requires_confirm[of "no_opts\<lparr>opt_confirm := Some True\<rparr>" "answer1 (Inr ())"
      plain_env "''db-pass''" "()"]
  by (simp add: no_opts_def delete_action_def answer1_def)

subsection \<open>secrets set\<close>

text \<open>
  C5. When no value is provided to \<^verbatim>\<open>secrets set\<close> (the value option is missing or empty,
  and the standard input is a terminal or ends with nothing but white space), the
  command reports a validation error and exits with code 1 without calling setSecret;
  the state is as it was. The error is that of the tier when the tier is invalid too,
  since the tier is parsed first.
\<close>

theorem set_without_value:
  assumes "falsy_string (opt_value opts)"
    and "stdin_isTTY e \<or> readStdin (stdin e) = Some (Inr [])"
  shows "set_action setS e name opts b =
           Some ([Error (case parseTier (opt_tier opts) of
                           Inl m \<Rightarrow> ''Failed to set secret: '' @ m
                         | Inr t \<Rightarrow> ''No value provided. Use --value or pipe to stdin.''),
                  Exit 1], b)"
proof -
  have "set_value e opts = Some (Inr [])"
    using assms by (auto simp: set_value_def)
  then show ?thesis
    by (simp add: set_action_def split: sum.splits)
qed

theorem set_without_value_witness:
  "set_action (answer4 (Inr ())) (plain_env\<lparr>stdin_isTTY := False, stdin := StdinEnd []\<rparr>)
     ''db-pass'' no_opts () =
     Some ([Error ''No value provided. Use --value or pipe to stdin.'', Exit 1], ())"
proof -
  have v: "falsy_string (opt_value no_opts)" by (simp add: no_opts_def)
  have s: "stdin_isTTY (plain_env\<lparr>stdin_isTTY := False, stdin := StdinEnd []\<rparr>) \<or>
           readStdin (stdin (plain_env\<lparr>stdin_isTTY := False, stdin := StdinEnd []\<rparr>)) = Some (Inr [])"
    by (simp add: trim_def trimEnd_def)
  show ?thesis
    using set_without_value[OF v s, of "answer4 (Inr ())" "''db-pass''" "()"]
    by (simp add: parseTier_cases no_opts_def)
qed

text \<open>
  C2, as amended. The tier input of \<^verbatim>\<open>secrets set\<close> is accepted if and only if it is
  omitted or empty, and is then taken as \<^verbatim>\<open>controlled\<close>, or its lower-case form is one of
  exactly the three strings \<^verbatim>\<open>open\<close>, \<^verbatim>\<open>controlled\<close>, \<^verbatim>\<open>restricted\<close>, and is then taken
  as the tier of that name. Any other tier input is rejected before the broker is
  reached: the command reports the invalid tier, exits with code 1, calls nothing and
  leaves the state as it was. An accepted tier input, with a value, reaches setSecret as
  the tier it is taken as.
\<close>

theorem set_tier_accepted_iff:
  "(\<not> (falsy_string (opt_tier opts) \<or>
        toLowerCase (the (opt_tier opts)) \<in> set [''open'', ''controlled'', ''restricted'']) \<longrightarrow>
      set_action setS e name opts b =
        Some ([Error (''Failed to set secret: Invalid tier: '' @ the (opt_tier opts)
                      @ ''. Must be open, controlled, or restricted.''), Exit 1], b))
   \<and> (falsy_string (opt_tier opts) \<and> set_value e opts = Some (Inr v) \<and> v \<noteq> [] \<longrightarrow>
      (\<exists>r. set_action setS e name opts b = Some r \<and>
           calls (fst r) = [SetSecret name v Controlled (opt_description opts)]))
   \<and> (\<not> falsy_string (opt_tier opts) \<and>
       toLowerCase (the (opt_tier opts)) \<in> set [''open'', ''controlled'', ''restricted''] \<and>
       set_value e opts = Some (Inr v) \<and> v \<noteq> [] \<longrightarrow>
      (\<exists>T r. tierString T = toLowerCase (the (opt_tier opts)) \<and>
             set_action setS e name opts b = Some r \<and>
             calls (fst r) = [SetSecret name v T (opt_description opts)]))"
proof (intro conjI impI)
  assume bad: "\<not> (falsy_string (opt_tier opts) \<or>
        toLowerCase (the (opt_tier opts)) \<in> set [''open'', ''controlled'', ''restricted''])"
  then have "parseTier (opt_tier opts) =
      Inl (''Invalid tier: '' @ the (opt_tier opts) @ ''. Must be open, controlled, or restricted.'')"
    by (simp add: parseTier_cases)
  then show "set_action setS e name opts b =
        Some ([Error (''Failed to set secret: Invalid tier: '' @ the (opt_tier opts)
                      @ ''. Must be open, controlled, or restricted.''), Exit 1], b)"
    by (simp add: set_action_invalid_tier)
next
  assume dflt: "falsy_string (opt_tier opts) \<and> set_value e opts = Some (Inr v) \<and> v \<noteq> []"
  then have "parseTier (opt_tier opts) = Inr Controlled"
    by (simp add: parseTier_cases)
  with dflt show "\<exists>r. set_action setS e name opts b = Some r \<and>
           calls (fst r) = [SetSecret name v Controlled (opt_description opts)]"
    using set_action_valid[of opts Controlled e v setS name b] by blast
next
  assume ok: "\<not> falsy_string (opt_tier opts) \<and>
       toLowerCase (the (opt_tier opts)) \<in> set [''open'', ''controlled'', ''restricted''] \<and>
       set_value e opts = Some (Inr v) \<and> v \<noteq> []"
  then have "toLowerCase (the (opt_tier opts)) = tierString Open
      \<or> toLowerCase (the (opt_tier opts)) = tierString Controlled
      \<or> toLowerCase (the (opt_tier opts)) = tierString Restricted"
    by simp
  then obtain T where T: "toLowerCase (the (opt_tier opts)) = tierString T"
    by blast
  from ok obtain t where t: "opt_tier opts = Some t"
    by (cases "opt_tier opts") auto
  with T have "parseTier (opt_tier opts) = Inr T"
    by (simp add: parseTier_tierString)
  with ok T show "\<exists>T r. tierString T = toLowerCase (the (opt_tier opts)) \<and>
             set_action setS e name opts b = Some r \<and>
             calls (fst r) = [SetSecret name v T (opt_description opts)]"
    using set_action_valid[of opts T e v setS name b] by metis
qed

theorem set_tier_accepted_iff_witness:
  "set_action (answer4 (Inr ())) plain_env ''k''
     (no_opts\<lparr>opt_tier := Some ''secret'', opt_value := Some ''v''\<rparr>) () =
     Some ([Error ''Failed to set secret: Invalid tier: secret. Must be open, controlled, or restricted.'',
            Exit 1], ())
   \<and> (\<exists>r. set_action (answer4 (Inr ())) plain_env ''k'' (no_opts\<lparr>opt_value := Some ''v''\<rparr>) ()
            = Some r \<and>
          calls (fst r) = [SetSecret ''k'' ''v'' Controlled None])
   \<and> (\<exists>T r. tierString T = ''open'' \<and>
            set_action (answer4 (Inr ())) plain_env ''k''
              (no_opts\<lparr>opt_tier := Some ''OPEN'', opt_value := Some ''v''\<rparr>) () = Some r \<and>
            calls (fst r) = [SetSecret ''k'' ''v'' T None])"
proof -
  have l: "toLowerCase ''secret'' = ''secret''" by code_simp
  show ?thesis
    using set_tier_accepted_iff[of "no_opts\<lparr>opt_tier := Some ''secret'', opt_value := Some ''v''\<rparr>"
        "answer4 (Inr ())" plain_env "''k''" "()" "''v''"]
      set_tier_accepted_iff[of "no_opts\<lparr>opt_value := Some ''v''\<rparr>"
        "answer4 (Inr ())" plain_env "''k''" "()" "''v''"]
      set_tier_accepted_iff[of "no_opts\<lparr>opt_tier := Some ''OPEN'', opt_value := Some ''v''\<rparr>"
        "answer4 (Inr ())" plain_env "''k''" "()" "''v''"]
    by (simp add: l toLowerCase_OPEN no_opts_def set_value_def)
qed

text \<open>
  C2 as it is stated fails at the tier input \<^verbatim>\<open>OPEN\<close>: it is none of the three strings,
  and the command accepts it and calls setSecret with the tier \<^verbatim>\<open>open\<close>.
\<close>

theorem set_tier_uppercase_counterexample:
  "''OPEN'' \<notin> set [''open'', ''controlled'', ''restricted''] \<and>
   set_action (answer4 (Inr ())) plain_env ''k''
     (no_opts\<lparr>opt_tier := Some ''OPEN'', opt_value := Some ''v''\<rparr>) () =
     Some ([Call (SetSecret ''k'' ''v'' Open None),
            Log (check_mark @ '' Secret '' @ apostrophe @ ''k'' @ apostrophe @ '' stored (tier: open)'')], ())"
  by (simp add: set_action_def parseTier_cases toLowerCase_OPEN set_value_def no_opts_def
      answer4_def plain_env_def)



subsection \<open>secrets grant\<close>

text \<open>
  C3. The claim is that a TTL that is not positive or not numeric fails with a validation
  error and grantSecret is never called. The command does otherwise on two inputs: the
  TTL \<^verbatim>\<open>5abc\<close> is not a number, and grantSecret is called with 5 minutes, the digits
  parseInt reads before it stops; the empty TTL is not a number, and grantSecret is
  called with no TTL, as if the option were absent.
\<close>

theorem grant_ttl_not_validated:
  "calls (fst (grant_action (answer3 (Inr 300000)) plain_env ''db-pass'' ''123456''
                 (no_opts\<lparr>opt_ttl := Some ''5abc''\<rparr>) ())) =
     [GrantSecret ''db-pass'' ''123456'' (Some (Num 5))]
   \<and> calls (fst (grant_action (answer3 (Inr 300000)) plain_env ''db-pass'' ''123456''
                 (no_opts\<lparr>opt_ttl := Some []\<rparr>) ())) =
     [GrantSecret ''db-pass'' ''123456'' None]"
  by (simp add: grant_action_def no_opts_def answer3_def parseInt_5abc)

text \<open>What the command does check: a TTL that reaches grantSecret is absent, a positive
  integer or the positive infinity, and a TTL that parseInt reads as \<^verbatim>\<open>NaN\<close> or as a
  number that is not positive is refused before the broker is reached.\<close>

lemma grant_forwarded_ttl_positive:
  "GrantSecret n c t \<in> set (calls (fst (grant_action grantS e name code opts b))) \<Longrightarrow>
     t = None \<or> (\<exists>k. 0 < k \<and> t = Some (Num k)) \<or> t = Some PosInfinity"
  apply (cases "grantS name code
      (if \<not> falsy_string (opt_ttl opts) then Some (parseInt (the (opt_ttl opts))) else None) b")
  apply (cases "parseInt (the (opt_ttl opts))")
     apply (auto simp: grant_action_def Let_def split: if_splits sum.splits)
  done

lemma grant_rejects_nan_or_nonpositive:
  "opt_ttl opts = Some s \<Longrightarrow> s \<noteq> [] \<Longrightarrow>
   parseInt s = NaN \<or> (\<exists>k. k \<le> 0 \<and> parseInt s = Num k) \<or> parseInt s = NegInfinity \<Longrightarrow>
     grant_action grantS e name code opts b = ([Error ''TTL must be a positive number'', Exit 1], b)"
  by (auto simp: grant_action_def Let_def)

text \<open>The rounding at work: \<open>2 ^ 53 + 1\<close> is read as \<open>2 ^ 53\<close>.\<close>

lemma parseInt_rounds: "parseInt ''9007199254740993'' = Num 9007199254740992"
  by code_simp

text \<open>A TTL of 309 digits is read as the positive infinity, which is neither \<^verbatim>\<open>NaN\<close> nor
  below zero, and reaches grantSecret.\<close>

lemma parseInt_overflows: "parseInt (replicate 309 (CHR ''9'')) = PosInfinity"
  by code_simp

lemma grant_ttl_infinite:
  "calls (fst (grant_action (answer3 (Inr 300000)) plain_env ''db-pass'' ''123456''
                 (no_opts\<lparr>opt_ttl := Some (replicate 309 (CHR ''9''))\<rparr>) ())) =
     [GrantSecret ''db-pass'' ''123456'' (Some PosInfinity)]"
proof -
  have "replicate 309 (CHR ''9'') \<noteq> []" by simp
  then show ?thesis
    by (simp add: grant_action_def no_opts_def answer3_def parseInt_overflows)
qed

text \<open>White space beyond ASCII is skipped as the code skips it: a TTL after U+00A0, and an
  input of U+00A0 and a line feed.\<close>

lemma parseInt_nbsp: "parseInt [CHR 0xC2, CHR 0xA0, CHR ''7''] = Num 7"
  by code_simp

lemma trim_nbsp: "trim [CHR 0xC2, CHR 0xA0, CHR 0x0A] = []"
  by code_simp

section \<open>Properties of the broker as specified\<close>

subsection \<open>Reading an open secret\<close>

lemma find_name_map_other:
  assumes "m \<noteq> n" and "\<And>s. secret_name (f s) = secret_name s"
  shows "find (\<lambda>s. secret_name s = n) (map (\<lambda>s. if secret_name s = m then f s else s) xs)
         = find (\<lambda>s. secret_name s = n) xs"
  using assms by (induction xs) auto

lemma find_name_map_same:
  assumes "find (\<lambda>s. secret_name s = n) xs = Some old" and "\<And>s. secret_name (f s) = secret_name s"
  shows "find (\<lambda>s. secret_name s = n) (map (\<lambda>s. if secret_name s = n then f s else s) xs)
         = Some (f old)"
  using assms by (induction xs) (auto split: if_splits)

lemma find_name_filter_other:
  "m \<noteq> n \<Longrightarrow> find (\<lambda>s. secret_name s = n) (filter (\<lambda>s. secret_name s \<noteq> m) xs)
         = find (\<lambda>s. secret_name s = n) xs"
  by (induction xs) auto

lemma find_name_snoc:
  "find P (xs @ [x]) = (case find P xs of None \<Rightarrow> (if P x then Some x else None) | Some y \<Rightarrow> Some y)"
  by (induction xs) auto

lemma setSecret_establishes:
  "\<exists>s. find_secret n (snd (spec_setSecret E now n v t d b)) = Some s \<and>
       secret_tier s = t \<and> sealedValue s = seal E (nextNonce b) v"
proof (cases "find_secret n b")
  case None
  then show ?thesis
    by (simp add: spec_setSecret_def find_secret_def Let_def find_name_snoc)
next
  case (Some old)
  then have "find (\<lambda>s. secret_name s = n)
      (map (\<lambda>s. if secret_name s = n
            then s\<lparr>secret_tier := t, secret_description := d,
                   sealedValue := seal E (nextNonce b) v, updatedAt := now\<rparr>
            else s) (registry b))
    = Some (old\<lparr>secret_tier := t, secret_description := d,
                 sealedValue := seal E (nextNonce b) v, updatedAt := now\<rparr>)"
    unfolding find_secret_def by (rule find_name_map_same) simp
  with Some show ?thesis
    by (simp add: spec_setSecret_def find_secret_def Let_def)
qed

lemma apply_op_keeps_secret:
  assumes "\<not> writes_secret n op" and "find_secret n b = Some s"
  shows "find_secret n (apply_op E b op) = Some s"
proof (cases op)
  case (OpSet now m v t d)
  with assms have neq: "m \<noteq> n" by simp
  show ?thesis
  proof (cases "find_secret m b")
    case None
    with assms OpSet neq show ?thesis
      by (simp add: spec_setSecret_def find_secret_def Let_def find_name_snoc)
  next
    case (Some old)
    with assms OpSet neq show ?thesis
      by (simp add: spec_setSecret_def find_secret_def Let_def find_name_map_other)
  qed
next
  case (OpGet now m)
  with assms show ?thesis
    by (auto simp: spec_getSecret_def find_secret_def split: option.splits)
next
  case (OpDelete now m)
  with assms show ?thesis
    by (auto simp: spec_deleteSecret_def find_secret_def find_name_filter_other split: option.splits)
next
  case (OpGrant now m code ttl)
  with assms show ?thesis
    by (auto simp: spec_grantSecret_def find_secret_def Let_def split: option.splits)
next
  case (OpRevoke now m)
  with assms show ?thesis
    by (simp add: spec_revokeSecret_def find_secret_def)
next
  case (OpSetupTotp k)
  with assms show ?thesis
    by (simp add: spec_setupTotp_def find_secret_def)
qed

lemma run_keeps_secret:
  "\<forall>op \<in> set ops. \<not> writes_secret n op \<Longrightarrow> find_secret n b = Some s \<Longrightarrow>
     find_secret n (run E ops b) = Some s"
proof (induction ops arbitrary: b)
  case Nil
  then show ?case by (simp add: run_def)
next
  case (Cons op ops)
  then have "find_secret n (apply_op E b op) = Some s"
    by (simp add: apply_op_keeps_secret)
  with Cons show ?case by (simp add: run_def)
qed

lemma getSecret_open:
  "find_secret n b = Some s \<Longrightarrow> secret_tier s = Open \<Longrightarrow> unseal E (sealedValue s) = Some v \<Longrightarrow>
     fst (spec_getSecret E now n b) = Inr (Some v)"
  by (simp add: spec_getSecret_def)

text \<open>
  C6. For every secret of tier \<^verbatim>\<open>open\<close> and every value stored for it by set, getSecret
  succeeds and returns the value last set, with no grant required: after
  \<^verbatim>\<open>setSecret(n, v, open)\<close> and any operations that neither set nor delete \<open>n\<close>, in any
  state and at any time, \<^verbatim>\<open>getSecret(n)\<close> returns \<open>v\<close>, for an engine that unseals what it
  sealed.
\<close>

theorem open_secret_get_after_set:
  assumes "\<forall>k x. unseal E (seal E k x) = Some x"
    and "\<forall>op \<in> set ops. \<not> writes_secret n op"
  shows "fst (spec_getSecret E now n (run E ops (snd (spec_setSecret E now0 n v Open d b))))
         = Inr (Some v)"
proof -
  obtain s where s: "find_secret n (snd (spec_setSecret E now0 n v Open d b)) = Some s"
      "secret_tier s = Open" "sealedValue s = seal E (nextNonce b) v"
    using setSecret_establishes[of n E now0 v Open d b] by blast
  from assms(2) s(1)
  have kept: "find_secret n (run E ops (snd (spec_setSecret E now0 n v Open d b))) = Some s"
    by (rule run_keeps_secret)
  have "unseal E (sealedValue s) = Some v"
    using assms(1) s(3) by simp
  with kept s(2) show ?thesis
    by (rule getSecret_open)
qed

theorem open_secret_get_after_set_witness:
  "fst (spec_getSecret pairing_engine 50 ''api-url''
    (run pairing_engine [OpGet 10 ''api-url'', OpSet 20 ''db-pass'' ''s3cr3t'' Restricted None,
                         OpRevoke 30 ''api-url'']
      (snd (spec_setSecret pairing_engine 0 ''api-url'' ''https://x'' Open None empty_broker))))
   = Inr (Some ''https://x'')"
proof -
  have rt: "\<forall>k x. unseal pairing_engine (seal pairing_engine k x) = Some x"
    by (simp add: pairing_engine_def)
  have ops: "\<forall>op \<in> set [OpGet 10 ''api-url'', OpSet 20 ''db-pass'' ''s3cr3t'' Restricted None,
                         OpRevoke 30 ''api-url'']. \<not> writes_secret ''api-url'' op"
    by simp
  show ?thesis
    using open_secret_get_after_set[OF rt ops] by simp
qed

text \<open>The absent value of getSecret is the same for a secret that does not exist and for
  a gated secret without a valid grant.\<close>

lemma getSecret_denied_as_missing:
  "find_secret n b = None \<Longrightarrow> fst (spec_getSecret E now n b) = Inr None"
  "find_secret n b = Some s \<Longrightarrow> secret_tier s \<noteq> Open \<Longrightarrow> \<not> g_valid (isValid now n b) \<Longrightarrow>
     fst (spec_getSecret E now n b) = Inr None"
  by (simp_all add: spec_getSecret_def)

subsection \<open>One grant for a secret\<close>

lemma distinct_names_filter:
  "distinct (map secretName gs) \<Longrightarrow> distinct (map secretName (filter P gs))"
  by (simp add: distinct_map_filter)

lemma distinct_names_replace:
  assumes "distinct (map secretName gs)" and "secretName g = n"
  shows "distinct (map secretName (filter (\<lambda>x. secretName x \<noteq> n) gs @ [g]))"
  using assms by (auto simp: distinct_map_filter)

lemma apply_op_grants_distinct:
  assumes "distinct (map secretName (grants b))"
  shows "distinct (map secretName (grants (apply_op E b op)))"
proof (cases op)
  case (OpSet now m v t d)
  with assms show ?thesis by (simp add: spec_setSecret_def Let_def)
next
  case (OpGet now m)
  with assms show ?thesis
    by (auto simp: spec_getSecret_def split: option.splits)
next
  case (OpDelete now m)
  with assms show ?thesis
    by (auto simp: spec_deleteSecret_def distinct_map_filter split: option.splits)
next
  case (OpGrant now m code ttl)
  with assms show ?thesis
    by (auto simp: spec_grantSecret_def Let_def distinct_map_filter split: option.splits)
next
  case (OpRevoke now m)
  with assms show ?thesis
    by (simp add: spec_revokeSecret_def distinct_map_filter)
next
  case (OpSetupTotp k)
  with assms show ?thesis by (simp add: spec_setupTotp_def)
qed

lemma run_grants_distinct:
  "distinct (map secretName (grants b)) \<Longrightarrow> distinct (map secretName (grants (run E ops b)))"
proof (induction ops arbitrary: b)
  case Nil
  then show ?case by (simp add: run_def)
next
  case (Cons op ops)
  from Cons.prems have "distinct (map secretName (grants (apply_op E b op)))"
    by (rule apply_op_grants_distinct)
  then have "distinct (map secretName (grants (run E ops (apply_op E b op))))"
    by (rule Cons.IH)
  then show ?case by (simp add: run_def)
qed

lemma distinct_names_at_most_one:
  "distinct (map secretName gs) \<Longrightarrow> length (filter (\<lambda>g. secretName g = n) gs) \<le> 1"
proof (induction gs)
  case Nil
  then show ?case by simp
next
  case (Cons g gs)
  show ?case
  proof (cases "secretName g = n")
    case True
    with Cons.prems have "n \<notin> secretName ` set gs"
      by simp
    then have "\<forall>x \<in> set gs. secretName x \<noteq> n"
      by blast
    then have "filter (\<lambda>g. secretName g = n) gs = []"
      by (simp add: filter_empty_conv)
    with True show ?thesis by simp
  next
    case False
    with Cons show ?thesis by simp
  qed
qed

lemma grantSecret_success:
  assumes "spec_grantSecret E now n code ttl b = (Inr x, b')"
  shows "x = now + (case ttl of None \<Rightarrow> defaultTtlMinutes E | Some m \<Rightarrow> m) * 60000
       \<and> grants b' = filter (\<lambda>g. secretName g \<noteq> n) (grants b)
                      @ [\<lparr>secretName = n, issuedAt = now, expiresAt = x\<rparr>]"
  using assms by (auto simp: spec_grantSecret_def Let_def split: option.splits if_splits)

lemma filter_name_replace:
  "secretName g = n \<Longrightarrow>
     filter (\<lambda>x. secretName x = n) (filter (\<lambda>x. secretName x \<noteq> n) gs @ [g]) = [g]"
  by (induction gs) auto

text \<open>
  C7. For every secret name at most one grant exists at any time, in every state the
  operations reach from the empty one (so at most one active grant); and issuing grant A
  and then grant B for the same secret leaves exactly one grant of that secret, whose
  expiry is B's: the time of B plus B's TTL, whatever A's expiry was.
\<close>

theorem one_grant_per_secret:
  "length (filter (\<lambda>g. secretName g = n) (grants (run E ops empty_broker))) \<le> 1
   \<and> (spec_grantSecret E nowA n codeA ttlA b = (Inr eA, bA) \<and>
      spec_grantSecret E nowB n codeB ttlB bA = (Inr eB, bB) \<longrightarrow>
        filter (\<lambda>g. secretName g = n) (grants bB) = [\<lparr>secretName = n, issuedAt = nowB, expiresAt = eB\<rparr>]
        \<and> eB = nowB + (case ttlB of None \<Rightarrow> defaultTtlMinutes E | Some m \<Rightarrow> m) * 60000)"
proof (intro conjI impI)
  have "distinct (map secretName (grants (empty_broker :: 'a broker)))"
    by (simp add: empty_broker_def)
  then have "distinct (map secretName (grants (run E ops empty_broker)))"
    by (rule run_grants_distinct)
  then show "length (filter (\<lambda>g. secretName g = n) (grants (run E ops empty_broker))) \<le> 1"
    by (rule distinct_names_at_most_one)
next
  assume "spec_grantSecret E nowA n codeA ttlA b = (Inr eA, bA) \<and>
      spec_grantSecret E nowB n codeB ttlB bA = (Inr eB, bB)"
  then have B: "spec_grantSecret E nowB n codeB ttlB bA = (Inr eB, bB)" by simp
  from grantSecret_success[OF B]
  show "filter (\<lambda>g. secretName g = n) (grants bB) = [\<lparr>secretName = n, issuedAt = nowB, expiresAt = eB\<rparr>]"
    by (simp add: filter_name_replace)
  from grantSecret_success[OF B]
  show "eB = nowB + (case ttlB of None \<Rightarrow> defaultTtlMinutes E | Some m \<Rightarrow> m) * 60000"
    by simp
qed

theorem one_grant_per_secret_witness:
  "filter (\<lambda>g. secretName g = ''db-pass'')
     (grants (snd (spec_grantSecret pairing_engine 2000 ''db-pass'' ''123456'' (Some 10)
        (snd (spec_grantSecret pairing_engine 1000 ''db-pass'' ''123456'' (Some 5)
           (run pairing_engine [OpSetupTotp ''123456'', OpSet 0 ''db-pass'' ''s3cr3t'' Restricted None]
              empty_broker))))))
   = [\<lparr>secretName = ''db-pass'', issuedAt = 2000, expiresAt = 602000\<rparr>]"
proof -
  let ?b = "run pairing_engine [OpSetupTotp ''123456'', OpSet 0 ''db-pass'' ''s3cr3t'' Restricted None]
              (empty_broker :: (nat \<times> string) broker)"
  let ?A = "spec_grantSecret pairing_engine 1000 ''db-pass'' ''123456'' (Some 5) ?b"
  let ?B = "spec_grantSecret pairing_engine 2000 ''db-pass'' ''123456'' (Some 10) (snd ?A)"
  have A: "?A = (Inr 301000, snd ?A)"
    by (simp add: run_def spec_setupTotp_def spec_setSecret_def empty_broker_def find_secret_def
        totp_ok_def pairing_engine_def Let_def spec_grantSecret_def)
  have B: "?B = (Inr 602000, snd ?B)"
    by (simp add: run_def spec_setupTotp_def spec_setSecret_def empty_broker_def find_secret_def
        totp_ok_def pairing_engine_def Let_def spec_grantSecret_def)
  show ?thesis
    using one_grant_per_secret[of "''db-pass''" pairing_engine "[]" 1000 "''123456''" "Some 5" ?b
        301000 "snd ?A" 2000 "''123456''" "Some 10" 602000 "snd ?B"] A B
    by simp
qed

subsection \<open>What secrets list shows\<close>

lemma maps_alike:
  "map secret_name xs = map secret_name ys \<Longrightarrow> map secret_tier xs = map secret_tier ys \<Longrightarrow>
     list_all2 (\<lambda>s t. secret_name s = secret_name t \<and> secret_tier s = secret_tier t) xs ys"
proof (induction xs arbitrary: ys)
  case Nil
  then show ?case by simp
next
  case (Cons x xs)
  then obtain y ys' where "ys = y # ys'" by (cases ys) auto
  with Cons show ?case by auto
qed

lemma isValid_grants:
  "grants b1 = grants b2 \<Longrightarrow> isValid now n b1 = isValid now n b2"
  by (simp add: isValid_def find_grant_def)

lemma listSecrets_alike:
  assumes "list_all2 (\<lambda>s t. secret_name s = secret_name t \<and> secret_tier s = secret_tier t)
             (registry b1) (registry b2)"
    and "grants b1 = grants b2"
  shows "spec_listSecrets now b1 = spec_listSecrets now b2"
proof -
  have iv: "isValid now n b1 = isValid now n b2" for n
    using assms(2) by (rule isValid_grants)
  have "map (\<lambda>s. \<lparr>s_name = secret_name s, s_tier = secret_tier s,
                   s_grant = isValid now (secret_name s) b1\<rparr>) xs
        = map (\<lambda>s. \<lparr>s_name = secret_name s, s_tier = secret_tier s,
                   s_grant = isValid now (secret_name s) b2\<rparr>) ys"
    if "list_all2 (\<lambda>s t. secret_name s = secret_name t \<and> secret_tier s = secret_tier t) xs ys"
    for xs :: "'a Secret list" and ys :: "'b Secret list"
    using that by (induction rule: list_all2_induct) (simp_all add: iv)
  with assms(1) show ?thesis
    by (simp add: spec_listSecrets_def)
qed

text \<open>
  C4. The output of \<^verbatim>\<open>secrets list\<close>, as a table and as JSON alike, holds the names, the
  tiers and the grant status of the registered secrets and nothing else of them: two
  states of the broker with the same names, the same tiers and the same grants give the
  same output, whatever sealed values (of whatever type), descriptions and dates their
  secrets hold.
\<close>

theorem list_output_hides_values:
  assumes "map secret_name (registry b1) = map secret_name (registry b2)"
    and "map secret_tier (registry b1) = map secret_tier (registry b2)"
    and "grants b1 = grants b2"
  shows "fst (list_action (broker_listSecrets now) e opts b1)
         = fst (list_action (broker_listSecrets now) e opts b2)"
proof -
  have "spec_listSecrets now b1 = spec_listSecrets now b2"
    using assms by (intro listSecrets_alike maps_alike)
  then show ?thesis
    by (simp add: list_action_def broker_listSecrets_def)
qed

theorem list_output_hides_values_witness:
  "fst (list_action (broker_listSecrets 0) plain_env no_opts
          (run pairing_engine [OpSet 0 ''db-pass'' ''s3cr3t'' Restricted None] empty_broker))
   = fst (list_action (broker_listSecrets 0) plain_env no_opts
          (run pairing_engine [OpSet 0 ''db-pass'' ''hunter2'' Restricted (Some ''database'')] empty_broker))"
  using list_output_hides_values[of
      "run pairing_engine [OpSet 0 ''db-pass'' ''s3cr3t'' Restricted None] empty_broker"
      "run pairing_engine [OpSet 0 ''db-pass'' ''hunter2'' Restricted (Some ''database'')] empty_broker"
      0 plain_env no_opts]
  by (simp add: run_def spec_setSecret_def empty_broker_def find_secret_def Let_def)

text \<open>The plaintext values do not reach the output either: two runs of operations that
  differ only in the values their sets store give the same output.\<close>

lemma alike_find:
  assumes "list_all2 (\<lambda>s t. secret_name s = secret_name t \<and> secret_tier s = secret_tier t) xs ys"
  shows "rel_option (\<lambda>s t. secret_name s = secret_name t \<and> secret_tier s = secret_tier t)
           (find (\<lambda>s. secret_name s = n) xs) (find (\<lambda>s. secret_name s = n) ys)"
  using assms by (induction rule: list_all2_induct) auto

lemma alike_filter:
  assumes "list_all2 (\<lambda>s t. secret_name s = secret_name t \<and> secret_tier s = secret_tier t) xs ys"
  shows "list_all2 (\<lambda>s t. secret_name s = secret_name t \<and> secret_tier s = secret_tier t)
           (filter (\<lambda>s. secret_name s \<noteq> n) xs) (filter (\<lambda>s. secret_name s \<noteq> n) ys)"
  using assms by (induction rule: list_all2_induct) auto

lemma alike_update:
  assumes "list_all2 (\<lambda>s t. secret_name s = secret_name t \<and> secret_tier s = secret_tier t) xs ys"
  shows "list_all2 (\<lambda>s t. secret_name s = secret_name t \<and> secret_tier s = secret_tier t)
           (map (\<lambda>s. if secret_name s = n
                     then s\<lparr>secret_tier := t, secret_description := d, sealedValue := c,
                            updatedAt := now\<rparr> else s) xs)
           (map (\<lambda>s. if secret_name s = n
                     then s\<lparr>secret_tier := t, secret_description := d, sealedValue := c',
                            updatedAt := now\<rparr> else s) ys)"
  using assms by (induction rule: list_all2_induct) auto

lemma setSecret_same_listing:
  assumes "same_listing b1 b2"
  shows "same_listing (snd (spec_setSecret E now n v t d b1)) (snd (spec_setSecret E now n v' t d b2))"
proof -
  from assms have al: "list_all2 (\<lambda>s t. secret_name s = secret_name t \<and> secret_tier s = secret_tier t)
        (registry b1) (registry b2)"
    by (simp add: same_listing_def)
  from alike_find[OF al, of n] show ?thesis
  proof (cases rule: option.rel_cases)
    case None
    with assms al show ?thesis
      by (simp add: same_listing_def spec_setSecret_def Let_def find_secret_def list_all2_appendI)
  next
    case (Some x y)
    with assms alike_update[OF al] show ?thesis
      by (simp add: same_listing_def spec_setSecret_def Let_def find_secret_def)
  qed
qed

lemma getSecret_same_listing:
  assumes "same_listing b1 b2"
  shows "same_listing (snd (spec_getSecret E now n b1)) (snd (spec_getSecret E now' n' b2))"
  using assms
  by (auto simp: same_listing_def spec_getSecret_def split: option.splits)

lemma deleteSecret_same_listing:
  assumes "same_listing b1 b2"
  shows "same_listing (snd (spec_deleteSecret now n b1)) (snd (spec_deleteSecret now n b2))"
proof -
  from assms have al: "list_all2 (\<lambda>s t. secret_name s = secret_name t \<and> secret_tier s = secret_tier t)
        (registry b1) (registry b2)"
    by (simp add: same_listing_def)
  from alike_find[OF al, of n] show ?thesis
  proof (cases rule: option.rel_cases)
    case None
    with assms show ?thesis
      by (simp add: spec_deleteSecret_def find_secret_def)
  next
    case (Some x y)
    with assms alike_filter[OF al] show ?thesis
      by (simp add: same_listing_def spec_deleteSecret_def find_secret_def)
  qed
qed

lemma grantSecret_same_listing:
  assumes "same_listing b1 b2"
  shows "same_listing (snd (spec_grantSecret E now n code ttl b1)) (snd (spec_grantSecret E now n code ttl b2))"
proof -
  from assms have al: "list_all2 (\<lambda>s t. secret_name s = secret_name t \<and> secret_tier s = secret_tier t)
        (registry b1) (registry b2)"
    by (simp add: same_listing_def)
  from assms have tk: "totp_ok E now code b1 = totp_ok E now code b2"
    by (simp add: same_listing_def totp_ok_def)
  from alike_find[OF al, of n] show ?thesis
  proof (cases rule: option.rel_cases)
    case None
    with assms show ?thesis
      by (simp add: spec_grantSecret_def find_secret_def)
  next
    case (Some x y)
    with assms tk show ?thesis
      by (simp add: same_listing_def spec_grantSecret_def find_secret_def Let_def)
  qed
qed

lemma apply_op_same_listing:
  assumes "same_listing b1 b2" and "same_but_value p q"
  shows "same_listing (apply_op E b1 p) (apply_op E b2 q)"
proof (cases p)
  case (OpSet now n v t d)
  with assms(2) obtain v' where "q = OpSet now n v' t d"
    by (cases q) auto
  with OpSet assms(1) show ?thesis
    by (simp add: setSecret_same_listing)
next
  case (OpGet now n)
  with assms(2) have "q = OpGet now n" by simp
  with OpGet assms(1) show ?thesis by (simp add: getSecret_same_listing)
next
  case (OpDelete now n)
  with assms(2) have "q = OpDelete now n" by simp
  with OpDelete assms(1) show ?thesis by (simp add: deleteSecret_same_listing)
next
  case (OpGrant now n code ttl)
  with assms(2) have "q = OpGrant now n code ttl" by simp
  with OpGrant assms(1) show ?thesis by (simp add: grantSecret_same_listing)
next
  case (OpRevoke now n)
  with assms(2) have "q = OpRevoke now n" by simp
  with OpRevoke assms(1) show ?thesis by (simp add: spec_revokeSecret_def same_listing_def)
next
  case (OpSetupTotp k)
  with assms(2) have "q = OpSetupTotp k" by simp
  with OpSetupTotp assms(1) show ?thesis by (simp add: spec_setupTotp_def same_listing_def)
qed

lemma run_same_listing:
  "list_all2 same_but_value ps qs \<Longrightarrow> same_listing b1 b2 \<Longrightarrow>
     same_listing (run E ps b1) (run E qs b2)"
proof (induction arbitrary: b1 b2 rule: list_all2_induct)
  case Nil
  then show ?case by (simp add: run_def)
next
  case (Cons p ps q qs)
  from Cons.prems Cons.hyps(1) have "same_listing (apply_op E b1 p) (apply_op E b2 q)"
    by (rule apply_op_same_listing)
  then have "same_listing (run E ps (apply_op E b1 p)) (run E qs (apply_op E b2 q))"
    by (rule Cons.IH)
  then show ?case by (simp add: run_def)
qed

lemma list_output_independent_of_values:
  assumes "list_all2 same_but_value ps qs"
  shows "fst (list_action (broker_listSecrets now) e opts (run E ps empty_broker))
         = fst (list_action (broker_listSecrets now) e opts (run E qs empty_broker))"
proof -
  have "same_listing (empty_broker :: 'a broker) empty_broker"
    by (simp add: same_listing_def empty_broker_def)
  with assms have "same_listing (run E ps empty_broker) (run E qs empty_broker)"
    by (rule run_same_listing)
  then have "spec_listSecrets now (run E ps empty_broker) = spec_listSecrets now (run E qs empty_broker)"
    by (simp add: same_listing_def listSecrets_alike)
  then show ?thesis
    by (simp add: list_action_def broker_listSecrets_def)
qed

end
